theory Spec2Isabelle
  imports Main
begin

section \<open>Data model\<close>

text \<open>
  The two collections of the service. A Contact document is keyed by its numeric
  \<open>_id\<close>, which the schema also exposes under the alias \<open>id\<close>; a Parent document is one
  row of the disjoint-set table, keyed the same way. A collection is a list in natural
  (insertion) order, so that \<open>findOne\<close> is the first match of a scan. Numbers are
  mathematical integers: the code's doubles agree with them for every id below \<open>2^53\<close>.
  Throughout, a filter on the alias \<open>id\<close> is read as a filter on the key \<open>_id\<close> that the
  schema declares it to be.
\<close>

datatype precedence = primary | secondary

record contact =
  id_contact :: int
  phoneNumber :: "string option"
  email :: "string option"
  linkedId :: "int option"
  linkPrecedence :: precedence
  createdAt :: nat
  updatedAt :: nat
  deletedAt :: "nat option"

record parent =
  id_parent :: int
  parId :: int
  childIds :: "int list"

record store =
  contacts :: "contact list"
  parents :: "parent list"

datatype error = ValidationError | DuplicateKey | DocumentNotFound

text \<open>
  An awaited store call either completes or rejects; a rejection leaves the store as the
  calls before it made it, since nothing is rolled back.
\<close>

datatype outcome = Done store | Threw error store

fun store_of :: "outcome \<Rightarrow> store" where
  "store_of (Done s) = s"
| "store_of (Threw e s) = s"

definition empty_store :: store where
  "empty_store = \<lparr>contacts = [], parents = []\<rparr>"

section \<open>Store primitives\<close>

text \<open>\<open>doc.save()\<close> on a freshly constructed document: an insert, rejected on a duplicate key.\<close>

definition Contact_save :: "contact \<Rightarrow> store \<Rightarrow> outcome" where
  "Contact_save c s =
     (if id_contact c \<in> set (map id_contact (contacts s)) then Threw DuplicateKey s
      else Done (s\<lparr>contacts := contacts s @ [c]\<rparr>))"

definition Parent_insert :: "parent \<Rightarrow> store \<Rightarrow> outcome" where
  "Parent_insert p s =
     (if id_parent p \<in> set (map id_parent (parents s)) then Threw DuplicateKey s
      else Done (s\<lparr>parents := parents s @ [p]\<rparr>))"

text \<open>\<open>Contact.findById(cid)\<close>.\<close>

definition Contact_findById :: "int \<Rightarrow> store \<Rightarrow> contact option" where
  "Contact_findById cid s = find (\<lambda>c. id_contact c = cid) (contacts s)"

text \<open>\<open>Parent.findOne({ parId: r })\<close> and \<open>Parent.findOne({ childIds: m })\<close>.\<close>

definition Parent_findOne_parId :: "int \<Rightarrow> store \<Rightarrow> parent option" where
  "Parent_findOne_parId r s = find (\<lambda>p. parId p = r) (parents s)"

definition Parent_findOne_childIds :: "int \<Rightarrow> store \<Rightarrow> parent option" where
  "Parent_findOne_childIds m s = find (\<lambda>p. m \<in> set (childIds p)) (parents s)"

text \<open>\<open>Parent.updateMany({ parId: oldRoot }, { parId: newRoot })\<close>.\<close>

definition Parent_updateMany_parId :: "int \<Rightarrow> int \<Rightarrow> store \<Rightarrow> store" where
  "Parent_updateMany_parId oldRoot newRoot s =
     s\<lparr>parents := map (\<lambda>p. if parId p = oldRoot then p\<lparr>parId := newRoot\<rparr> else p) (parents s)\<rparr>"

text \<open>
  \<open>doc.save()\<close> on a fetched Parent document whose \<open>childIds\<close> was reassigned: only the
  modified path is written, to the row with the document's key; the call rejects when no
  such row is left.
\<close>

definition Parent_save_childIds :: "parent \<Rightarrow> store \<Rightarrow> outcome" where
  "Parent_save_childIds doc s =
     (if id_parent doc \<in> set (map id_parent (parents s))
      then Done (s\<lparr>parents :=
             map (\<lambda>p. if id_parent p = id_parent doc then p\<lparr>childIds := childIds doc\<rparr> else p)
                 (parents s)\<rparr>)
      else Threw DocumentNotFound s)"

text \<open>\<open>Parent.deleteOne({ id: k })\<close>: the first row with that key goes.\<close>

fun delete_first :: "('a \<Rightarrow> bool) \<Rightarrow> 'a list \<Rightarrow> 'a list" where
  "delete_first P [] = []"
| "delete_first P (x # xs) = (if P x then xs else x # delete_first P xs)"

definition Parent_deleteOne_id :: "int \<Rightarrow> store \<Rightarrow> store" where
  "Parent_deleteOne_id k s = s\<lparr>parents := delete_first (\<lambda>p. id_parent p = k) (parents s)\<rparr>"

text \<open>
  A JavaScript \<open>Set\<close> built from an array and spread back: the elements in order of first
  occurrence. \<open>Set_add\<close> is one \<open>add\<close> on the set held as that array.
\<close>

definition Set_add :: "'a \<Rightarrow> 'a list \<Rightarrow> 'a list" where
  "Set_add x acc = (if x \<in> set acc then acc else acc @ [x])"

definition new_Set :: "'a list \<Rightarrow> 'a list" where
  "new_Set xs = foldl (\<lambda>acc x. Set_add x acc) [] xs"

section \<open>The DSU union\<close>

definition unionSets :: "int \<Rightarrow> int \<Rightarrow> store \<Rightarrow> outcome" where
  "unionSets rootA rootB s =
     (case Parent_findOne_parId rootA s of
        None \<Rightarrow> Done s
      | Some parentA \<Rightarrow>
         (case Parent_findOne_parId rootB s of
            None \<Rightarrow> Done s
          | Some parentB \<Rightarrow>
             (let newRoot = min rootA rootB;
                  oldRoot = (if newRoot = rootA then rootB else rootA);
                  newParent = (if newRoot = rootA then parentA else parentB);
                  oldParent = (if newRoot = rootA then parentB else parentA);
                  s1 = Parent_updateMany_parId oldRoot newRoot s;
                  newParent' = newParent\<lparr>childIds :=
                                  new_Set (childIds newParent @ childIds oldParent)\<rparr>
              in case Parent_save_childIds newParent' s1 of
                   Threw e s2 \<Rightarrow> Threw e s2
                 | Done s2 \<Rightarrow> Done (Parent_deleteOne_id (id_parent oldParent) s2))))"

section \<open>Request fields\<close>

text \<open>
  A body field is a string, or absent (\<open>undefined\<close>): the form-encoded bodies of the demo
  page. A string is truthy unless it is empty. Strings are taken to be ASCII, so white space
  is tab, line feed, vertical tab, form feed, carriage return and space, for \<open>trim\<close> as
  for \<open>parseInt\<close>; \<open>parseInt(undefined)\<close> reads the string \<open>undefined\<close>.
\<close>

definition truthy :: "string option \<Rightarrow> bool" where
  "truthy x = (case x of None \<Rightarrow> False | Some v \<Rightarrow> v \<noteq> [])"

definition ToString :: "string option \<Rightarrow> string" where
  "ToString x = (case x of None \<Rightarrow> ''undefined'' | Some v \<Rightarrow> v)"

definition is_space :: "char \<Rightarrow> bool" where
  "is_space c = (c \<in> set [CHR 0x09, CHR 0x0A, CHR 0x0B, CHR 0x0C, CHR 0x0D, CHR '' ''])"

definition trim :: "string \<Rightarrow> string" where
  "trim v = rev (dropWhile is_space (rev (dropWhile is_space v)))"

text \<open>
  \<open>parseInt(v)\<close> with no radix: leading white space is skipped, then an optional sign, then
  \<open>0x\<close> or \<open>0X\<close> selects radix 16, and the longest run of digits of the radix is read;
  \<open>None\<close> is \<open>NaN\<close>, the result when that run is empty.
\<close>

definition digit_val :: "nat \<Rightarrow> char \<Rightarrow> nat option" where
  "digit_val radix c =
     (let n = (of_char c :: nat);
          d = (if 48 \<le> n \<and> n \<le> 57 then Some (n - 48)
               else if 97 \<le> n \<and> n \<le> 122 then Some (n - 87)
               else if 65 \<le> n \<and> n \<le> 90 then Some (n - 55)
               else None)
      in case d of None \<Rightarrow> None | Some k \<Rightarrow> if k < radix then Some k else None)"

fun digits :: "nat \<Rightarrow> string \<Rightarrow> nat list" where
  "digits radix [] = []"
| "digits radix (c # cs) =
     (case digit_val radix c of None \<Rightarrow> [] | Some d \<Rightarrow> d # digits radix cs)"

definition parseInt :: "string \<Rightarrow> int option" where
  "parseInt v =
     (let s0 = dropWhile is_space v;
          neg = (case s0 of c # cs \<Rightarrow> c = CHR ''-'' | [] \<Rightarrow> False);
          s1 = (case s0 of c # cs \<Rightarrow> if c = CHR ''-'' \<or> c = CHR ''+'' then cs else s0
                | [] \<Rightarrow> []);
          hex = (case s1 of a # b # cs \<Rightarrow> a = CHR ''0'' \<and> (b = CHR ''x'' \<or> b = CHR ''X'')
                 | _ \<Rightarrow> False);
          radix = (if hex then 16 else 10);
          s2 = (if hex then drop 2 s1 else s1);
          ds = digits radix s2;
          n = int (foldl (\<lambda>acc d. acc * radix + d) 0 ds)
      in if ds = [] then None else Some (if neg then - n else n))"

record add_body =
  id_body :: "string option"
  phoneNumber_body :: "string option"
  email_body :: "string option"
  linkedId_body :: "string option"
  linkPrecedence_body :: "string option"

record identify_body =
  email_query :: "string option"
  phoneNumber_query :: "string option"

section \<open>POST /add-contact\<close>

datatype add_response = Redirect string

text \<open>The guard \<open>!linkedId || linkedId.trim() === ""\<close>.\<close>

definition linkedId_missing :: "string option \<Rightarrow> bool" where
  "linkedId_missing l = (case l of None \<Rightarrow> True | Some v \<Rightarrow> v = [] \<or> trim v = [])"

text \<open>
  \<open>new Contact({...})\<close> followed by the validation that \<open>save()\<close> runs before it writes:
  \<open>NaN\<close> does not cast to the Number paths \<open>_id\<close> and \<open>linkedId\<close>, and \<open>linkPrecedence\<close>
  is required and must be one of the enum's two strings.
\<close>

definition new_Contact :: "nat \<Rightarrow> add_body \<Rightarrow> error + contact" where
  "new_Contact now body =
     (case parseInt (ToString (id_body body)) of
        None \<Rightarrow> Inl ValidationError
      | Some i \<Rightarrow>
         (case (if truthy (linkedId_body body)
                then map_option Some (parseInt (ToString (linkedId_body body)))
                else Some None) of
            None \<Rightarrow> Inl ValidationError
          | Some l \<Rightarrow>
             (case (if linkPrecedence_body body = Some ''primary'' then Some primary
                    else if linkPrecedence_body body = Some ''secondary'' then Some secondary
                    else None) of
                None \<Rightarrow> Inl ValidationError
              | Some pr \<Rightarrow>
                 Inr \<lparr>id_contact = i, phoneNumber = phoneNumber_body body,
                      email = email_body body, linkedId = l, linkPrecedence = pr,
                      createdAt = now, updatedAt = now, deletedAt = None\<rparr>)))"

text \<open>
  \<open>Contact.find({ $or: [{ phoneNumber }, { email }], id: { $ne: id } })\<close>. An absent
  field in the filter is sent as \<open>null\<close>, which matches the documents that lack the field.
\<close>

definition matching_other :: "add_body \<Rightarrow> int \<Rightarrow> store \<Rightarrow> contact list" where
  "matching_other body i s =
     filter (\<lambda>c. (phoneNumber c = phoneNumber_body body \<or> email c = email_body body)
                  \<and> id_contact c \<noteq> i) (contacts s)"

text \<open>The loop that collects \<open>parentDoc.parId\<close> of every matching id into a \<open>Set\<close>.\<close>

definition roots_of :: "int list \<Rightarrow> store \<Rightarrow> int list" where
  "roots_of mids s =
     new_Set (List.map_filter (\<lambda>mid. map_option parId (Parent_findOne_childIds mid s)) mids)"

text \<open>The loop \<open>for (const root of roots) if (root !== newRoot) await unionSets(newRoot, root)\<close>.\<close>

fun union_each :: "int \<Rightarrow> int list \<Rightarrow> store \<Rightarrow> outcome" where
  "union_each newRoot [] s = Done s"
| "union_each newRoot (root # roots) s =
     (if root \<noteq> newRoot
      then (case unionSets newRoot root s of
              Threw e s' \<Rightarrow> Threw e s'
            | Done s' \<Rightarrow> union_each newRoot roots s')
      else union_each newRoot roots s)"

text \<open>
  The union with the root of \<open>linkedId\<close>. The document already holds \<open>parseInt(linkedId)\<close>
  exactly when \<open>linkedId\<close> is truthy, so the test \<open>linkPrecedence === "secondary" && linkedId\<close>
  reads the two fields of the saved document.
\<close>

definition union_linked :: "contact \<Rightarrow> store \<Rightarrow> outcome" where
  "union_linked c s =
     (case linkedId c of
        None \<Rightarrow> Done s
      | Some l \<Rightarrow>
         (if linkPrecedence c = secondary
          then (case Parent_findOne_childIds l s of
                  None \<Rightarrow> Done s
                | Some immediateParent \<Rightarrow>
                   (let linkedRoot = parId immediateParent
                    in if linkedRoot \<noteq> id_contact c
                       then unionSets linkedRoot (id_contact c) s
                       else Done s))
          else Done s))"

definition error_redirect :: add_response where
  "error_redirect = Redirect ''/?error=Error fetching contacts''"

definition add_contact :: "nat \<Rightarrow> add_body \<Rightarrow> store \<Rightarrow> add_response \<times> store" where
  "add_contact now body s =
     (if linkPrecedence_body body = Some ''secondary'' \<and> linkedId_missing (linkedId_body body)
      then (Redirect ''/?error=linkedId required for secondary contacts'', s)
      else
        (case new_Contact now body of
           Inl e \<Rightarrow> (error_redirect, s)
         | Inr newContact \<Rightarrow>
            (case Contact_save newContact s of
               Threw e s' \<Rightarrow> (error_redirect, s')
             | Done s1 \<Rightarrow>
                (let i = id_contact newContact in
                 case Parent_insert \<lparr>id_parent = i, parId = i, childIds = [i]\<rparr> s1 of
                   Threw e s' \<Rightarrow> (error_redirect, s')
                 | Done s2 \<Rightarrow>
                    (let matchingIds = map id_contact (matching_other body i s2);
                         roots = roots_of matchingIds s2
                     in case union_linked newContact s2 of
                          Threw e s' \<Rightarrow> (error_redirect, s')
                        | Done s3 \<Rightarrow>
                           (case union_each i roots s3 of
                              Threw e s' \<Rightarrow> (error_redirect, s')
                            | Done s4 \<Rightarrow> (Redirect ''/index.html'', s4)))))))"

section \<open>POST /identify\<close>

text \<open>
  A JavaScript number as the handler can hold one: \<open>Math.min()\<close> of no arguments is
  \<open>Infinity\<close>. The \<open>parId\<close> of a stored row is always finite, so the filter
  \<open>Number.isFinite\<close> keeps every root.
\<close>

datatype jsnum = Num int | Infinity

fun min_js :: "jsnum \<Rightarrow> int \<Rightarrow> jsnum" where
  "min_js Infinity r = Num r"
| "min_js (Num b) r = Num (min b r)"

definition Math_min :: "int list \<Rightarrow> jsnum" where
  "Math_min rs = foldl min_js Infinity rs"

text \<open>
  The object passed to \<open>res.json\<close>. A key that the handler does not write is \<open>None\<close>.
\<close>

record summary =
  primaryContatctId :: "jsnum option"
  primaryContactId :: "jsnum option"
  emails :: "string list"
  phoneNumbers :: "string list"
  secondaryContactIds :: "int list"

datatype identify_response =
    Json summary
  | Status400 string
  | Status500 string

text \<open>\<open>Contact.find({ $or: orFilters })\<close>, a filter being pushed for each truthy identifier.\<close>

definition matching_query :: "identify_body \<Rightarrow> store \<Rightarrow> contact list" where
  "matching_query q s =
     filter (\<lambda>c. (truthy (email_query q) \<and> email c = email_query q)
                  \<or> (truthy (phoneNumber_query q) \<and> phoneNumber c = phoneNumber_query q))
            (contacts s)"

text \<open>\<open>Contact.findOne({}, { _id: 1 }).sort({ _id: -1 })\<close>: the largest key, if any.\<close>

definition max_id :: "store \<Rightarrow> int option" where
  "max_id s = (case contacts s of [] \<Rightarrow> None
               | c # cs \<Rightarrow> Some (foldl max (id_contact c) (map id_contact cs)))"

text \<open>\<open>const newId = maxDoc ? Number(maxDoc._id) + 1 : 1\<close>.\<close>

definition newId :: "store \<Rightarrow> int" where
  "newId s = (case max_id s of None \<Rightarrow> 1 | Some m \<Rightarrow> m + 1)"

text \<open>\<open>Parent.find({ childIds: { $in: matchedIds } })\<close> and the \<open>Set\<close> of the rows' \<open>parId\<close>.\<close>

definition matched_roots :: "int list \<Rightarrow> store \<Rightarrow> int list" where
  "matched_roots matchedIds s =
     new_Set (map parId (filter (\<lambda>p. \<exists>m \<in> set matchedIds. m \<in> set (childIds p)) (parents s)))"

text \<open>
  The loop over \<open>rootsArr\<close>, with \<open>baseRoot\<close> as its variable; it yields the last
  \<open>baseRoot\<close>.
\<close>

fun union_roots :: "int \<Rightarrow> int list \<Rightarrow> store \<Rightarrow> (error + int) \<times> store" where
  "union_roots baseRoot [] s = (Inr baseRoot, s)"
| "union_roots baseRoot (r # rs) s =
     (if r \<noteq> baseRoot
      then (case unionSets baseRoot r s of
              Threw e s' \<Rightarrow> (Inl e, s')
            | Done s' \<Rightarrow> union_roots (min baseRoot r) rs s')
      else union_roots baseRoot rs s)"

text \<open>
  The per-id fetch: \<open>seenIds\<close>, \<open>emailSet\<close> and \<open>phoneSet\<close> are the loop's three sets;
  a document adds its email and its phone number when they are truthy.
\<close>

definition add_truthy :: "string option \<Rightarrow> string list \<Rightarrow> string list" where
  "add_truthy x acc = (case x of None \<Rightarrow> acc | Some v \<Rightarrow> if v \<noteq> [] then Set_add v acc else acc)"

fun collect :: "store \<Rightarrow> int list \<Rightarrow> int list \<Rightarrow> string list \<Rightarrow> string list
                \<Rightarrow> string list \<times> string list" where
  "collect s [] seenIds emailSet phoneSet = (emailSet, phoneSet)"
| "collect s (cid # rest) seenIds emailSet phoneSet =
     (if cid \<in> set seenIds then collect s rest seenIds emailSet phoneSet
      else (case Contact_findById cid s of
              None \<Rightarrow> collect s rest (Set_add cid seenIds) emailSet phoneSet
            | Some doc \<Rightarrow>
                collect s rest (Set_add cid seenIds)
                  (add_truthy (email doc) emailSet) (add_truthy (phoneNumber doc) phoneSet)))"

definition server_error :: identify_response where
  "server_error = Status500 ''Error identifying contact''"

text \<open>
  With no finite root, \<open>baseRoot\<close> is \<open>Infinity\<close>: the loop over the empty \<open>rootsArr\<close>
  does nothing, no row and no contact has that key, and \<open>idList\<close> is \<open>[Infinity]\<close>, so the
  summary is empty.
\<close>

definition identify :: "nat \<Rightarrow> identify_body \<Rightarrow> store \<Rightarrow> identify_response \<times> store" where
  "identify now q s =
     (if \<not> truthy (email_query q) \<and> \<not> truthy (phoneNumber_query q)
      then (Status400 ''Provide email or phoneNumber'', s)
      else
        (let matchingContacts = matching_query q s in
         if matchingContacts = [] then
           (let created = \<lparr>id_contact = newId s, phoneNumber = phoneNumber_query q,
                           email = email_query q, linkedId = None, linkPrecedence = primary,
                           createdAt = now, updatedAt = now, deletedAt = None\<rparr>
            in case Contact_save created s of
                 Threw e s' \<Rightarrow> (server_error, s')
               | Done s1 \<Rightarrow>
                  (case Parent_insert \<lparr>id_parent = newId s, parId = newId s, childIds = [newId s]\<rparr> s1 of
                     Threw e s' \<Rightarrow> (server_error, s')
                   | Done s2 \<Rightarrow>
                      (Json \<lparr>primaryContatctId = None,
                             primaryContactId = Some (Num (newId s)),
                             emails = (if truthy (email_query q) then [ToString (email_query q)] else []),
                             phoneNumbers = (if truthy (phoneNumber_query q)
                                             then [ToString (phoneNumber_query q)] else []),
                             secondaryContactIds = []\<rparr>, s2)))
         else
           (let matchedIds = map id_contact matchingContacts;
                rootsArr = matched_roots matchedIds s
            in case Math_min rootsArr of
                 Infinity \<Rightarrow>
                   (Json \<lparr>primaryContatctId = Some Infinity, primaryContactId = Some Infinity,
                          emails = [], phoneNumbers = [], secondaryContactIds = []\<rparr>, s)
               | Num base \<Rightarrow>
                  (case union_roots base rootsArr s of
                     (Inl e, s') \<Rightarrow> (server_error, s')
                   | (Inr baseRoot, s') \<Rightarrow>
                      (let idList = baseRoot #
                             (case Parent_findOne_parId baseRoot s' of
                                None \<Rightarrow> [] | Some finalParent \<Rightarrow> childIds finalParent);
                           sets = collect s' idList [] [] [];
                           secondaryIds = filter (\<lambda>cid. cid \<noteq> baseRoot) idList
                       in (Json \<lparr>primaryContatctId = Some (Num baseRoot),
                                 primaryContactId = Some (Num baseRoot),
                                 emails = fst sets, phoneNumbers = snd sets,
                                 secondaryContactIds = secondaryIds\<rparr>, s'))))))"

section \<open>GET /contacts\<close>

definition list_contacts :: "store \<Rightarrow> contact list \<times> store" where
  "list_contacts s = (contacts s, s)"

section \<open>Reachable stores\<close>



section \<open>The invariant of the disjoint-set table\<close>






text \<open>
  What \<open>unionSets\<close> makes of the rows when \<open>pa\<close> and \<open>pb\<close> are the rows of the roots
  \<open>a\<close> and \<open>b\<close> in a table that is in order: the row of the smaller root gets the merged
  \<open>childIds\<close>, the row of the larger root goes.
\<close>

definition merge_into :: "int \<Rightarrow> int list \<Rightarrow> parent \<Rightarrow> parent" where
  "merge_into n M p = (if id_parent p = n then p\<lparr>childIds := M\<rparr> else p)"

definition merged_ids :: "int \<Rightarrow> int \<Rightarrow> parent \<Rightarrow> parent \<Rightarrow> int list" where
  "merged_ids a b pa pb =
     new_Set (childIds (if a \<le> b then pa else pb) @ childIds (if a \<le> b then pb else pa))"


text \<open>The document that the no-match branch of the identify handler saves.\<close>

definition created :: "nat \<Rightarrow> identify_body \<Rightarrow> store \<Rightarrow> contact" where
  "created now q s = \<lparr>id_contact = newId s, phoneNumber = phoneNumber_query q,
                           email = email_query q, linkedId = None, linkPrecedence = primary,
                           createdAt = now, updatedAt = now, deletedAt = None\<rparr>"



section \<open>Example requests and stores\<close>

text \<open>
  The two requests of the scenario in the service's description: a primary contact \<open>1\<close>
  with an email, then a secondary contact \<open>2\<close> with the same email, a phone number and
  \<open>linkedId = 1\<close>.
\<close>

definition first_body :: add_body where
  "first_body = \<lparr>id_body = Some ''1'', phoneNumber_body = None, email_body = Some ''a@x.com'',
                  linkedId_body = None, linkPrecedence_body = Some ''primary''\<rparr>"

definition second_body :: add_body where
  "second_body = \<lparr>id_body = Some ''2'', phoneNumber_body = Some ''111'',
                   email_body = Some ''a@x.com'', linkedId_body = Some ''1'',
                   linkPrecedence_body = Some ''secondary''\<rparr>"

definition one_contact :: store where
  "one_contact = snd (add_contact 0 first_body empty_store)"

definition two_linked :: store where
  "two_linked = snd (add_contact 1 second_body one_contact)"

definition third_body :: add_body where
  "third_body = \<lparr>id_body = Some ''3'', phoneNumber_body = Some ''333'',
                  email_body = Some ''c@x.com'',
                  linkedId_body = None, linkPrecedence_body = Some ''primary''\<rparr>"

definition three_contacts :: store where
  "three_contacts = snd (add_contact 2 third_body two_linked)"





definition new_query :: identify_body where
  "new_query = \<lparr>email_query = Some ''new@x.com'', phoneNumber_query = None\<rparr>"

definition phone_query :: identify_body where
  "phone_query = \<lparr>email_query = None, phoneNumber_query = Some ''111''\<rparr>"




section \<open>Properties of the store primitives\<close>

lemma set_foldl_Set_add:
  "set (foldl (\<lambda>acc x. Set_add x acc) acc xs) = set acc \<union> set xs"
  by (induction xs arbitrary: acc) (auto simp: Set_add_def)

lemma distinct_foldl_Set_add:
  "distinct acc \<Longrightarrow> distinct (foldl (\<lambda>acc x. Set_add x acc) acc xs)"
  by (induction xs arbitrary: acc) (auto simp: Set_add_def)

lemma set_new_Set [simp]: "set (new_Set xs) = set xs"
  by (simp add: new_Set_def set_foldl_Set_add)

lemma distinct_new_Set [simp]: "distinct (new_Set xs)"
  by (simp add: new_Set_def distinct_foldl_Set_add)



lemma merge_into_simps [simp]:
  "id_parent (merge_into n M p) = id_parent p"
  "parId (merge_into n M p) = parId p"
  "id_parent p \<noteq> n \<Longrightarrow> merge_into n M p = p"
  "id_parent p = n \<Longrightarrow> childIds (merge_into n M p) = M"
  by (simp_all add: merge_into_def)

lemma merged_ids_simps [simp]:
  "set (merged_ids a b pa pb) = set (childIds pa) \<union> set (childIds pb)"
  "distinct (merged_ids a b pa pb)"
  by (auto simp: merged_ids_def)









lemma contacts_unionSets [simp]: "contacts (store_of (unionSets a b s)) = contacts s"
  by (simp add: unionSets_def Let_def Parent_save_childIds_def Parent_updateMany_parId_def
      Parent_deleteOne_id_def split: option.splits)





























lemma unionSets_missing:
  "Parent_findOne_parId a s = None \<or> Parent_findOne_parId b s = None \<Longrightarrow>
   unionSets a b s = Done s"
  by (auto simp: unionSets_def split: option.splits)










lemma parents_three_contacts:
  "parents three_contacts = [\<lparr>id_parent = 1, parId = 1, childIds = [1, 2]\<rparr>,
                             \<lparr>id_parent = 3, parId = 3, childIds = [3]\<rparr>]"
  by code_simp


section \<open>The invariants\<close>






section \<open>The union\<close>




text \<open>
  C8 (union on an id without a row), as amended. When one of the two numbers is the
  \<open>parId\<close> of no row, \<open>unionSets\<close> returns at its guard: the call completes without an
  error and the store is exactly as before.
\<close>

theorem union_without_row:
  assumes "Parent_findOne_parId a s = None \<or> Parent_findOne_parId b s = None"
  shows "unionSets a b s = Done s"
  using assms by (auto simp: unionSets_def split: option.splits)

theorem union_without_row_witness:
  "Parent_findOne_parId 4 two_linked = None \<and> unionSets 4 1 two_linked = Done two_linked"
proof -
  have none: "Parent_findOne_parId 4 two_linked = None" by code_simp
  then have "Parent_findOne_parId 4 two_linked = None \<or> Parent_findOne_parId 1 two_linked = None"
    by simp
  from union_without_row [OF this] none show ?thesis by simp
qed

text \<open>
  The claim as stated has such a call fail. Contact \<open>7\<close> was never added, and
  \<open>unionSets(1, 7)\<close> completes normally.
\<close>

theorem union_without_row_counterexample:
  "Contact_findById 7 one_contact = None \<and> Parent_findOne_childIds 7 one_contact = None
   \<and> unionSets 1 7 one_contact = Done one_contact"
proof -
  have "Contact_findById 7 one_contact = None" by code_simp
  moreover have "Parent_findOne_childIds 7 one_contact = None" by code_simp
  moreover have "Parent_findOne_parId 7 one_contact = None" by code_simp
  then have "unionSets 1 7 one_contact = Done one_contact"
    by (simp add: unionSets_missing)
  ultimately show ?thesis by simp
qed








section \<open>Requests\<close>



text \<open>
  C9 (the two fields for the primary id). The summary of the match branch carries
  \<open>primaryContatctId\<close> and \<open>primaryContactId\<close> with the same value. The summary of the
  no-match branch carries \<open>primaryContactId\<close> only: on the empty store, the query for
  \<open>new@x.com\<close> is answered without the legacy key.
\<close>

theorem identify_primary_fields:
  "fst (identify 0 new_query empty_store)
     = Json \<lparr>primaryContatctId = None, primaryContactId = Some (Num 1),
             emails = [''new@x.com''], phoneNumbers = [], secondaryContactIds = []\<rparr>
   \<and> fst (identify 2 phone_query two_linked)
     = Json \<lparr>primaryContatctId = Some (Num 1), primaryContactId = Some (Num 1),
             emails = [''a@x.com''], phoneNumbers = [''111''], secondaryContactIds = [2]\<rparr>"
proof -
  have "fst (identify 0 new_query empty_store)
     = Json \<lparr>primaryContatctId = None, primaryContactId = Some (Num 1),
             emails = [''new@x.com''], phoneNumbers = [], secondaryContactIds = []\<rparr>"
    by code_simp
  moreover have "fst (identify 2 phone_query two_linked)
     = Json \<lparr>primaryContatctId = Some (Num 1), primaryContactId = Some (Num 1),
             emails = [''a@x.com''], phoneNumbers = [''111''], secondaryContactIds = [2]\<rparr>"
    by code_simp
  ultimately show ?thesis by simp
qed




lemma contacts_Contact_save:
  "\<exists>cs. contacts (store_of (Contact_save c s)) = contacts s @ cs \<and> length cs \<le> 1"
  by (simp add: Contact_save_def)

lemma contacts_Parent_insert [simp]: "contacts (store_of (Parent_insert p s)) = contacts s"
  by (simp add: Parent_insert_def)

lemma contacts_union_each [simp]: "contacts (store_of (union_each i rs s)) = contacts s"
proof (induction rs arbitrary: s)
  case Nil
  show ?case by simp
next
  case (Cons r rs)
  show ?case
  proof (cases "unionSets i r s")
    case (Done s')
    with contacts_unionSets [of i r s] have "contacts s' = contacts s" by simp
    with Done Cons [of s'] Cons [of s] show ?thesis by simp
  next
    case (Threw e s')
    with contacts_unionSets [of i r s] have "contacts s' = contacts s" by simp
    with Threw Cons [of s] show ?thesis by simp
  qed
qed

lemma contacts_union_linked [simp]: "contacts (store_of (union_linked c s)) = contacts s"
  by (simp add: union_linked_def Let_def split: option.splits)

lemma contacts_union_roots [simp]: "contacts (snd (union_roots base rs s)) = contacts s"
proof (induction rs arbitrary: s base)
  case Nil
  show ?case by simp
next
  case (Cons r rs)
  show ?case
  proof (cases "unionSets base r s")
    case (Done s')
    with contacts_unionSets [of base r s] have "contacts s' = contacts s" by simp
    with Done Cons [where s = s' and base = "min base r"] Cons [where s = s and base = base]
    show ?thesis by simp
  next
    case (Threw e s')
    with contacts_unionSets [of base r s] have "contacts s' = contacts s" by simp
    with Threw Cons [where s = s and base = base] show ?thesis by simp
  qed
qed

lemma contacts_kept:
  "unionSets a b s = Done s' \<Longrightarrow> contacts s' = contacts s"
  "unionSets a b s = Threw e s' \<Longrightarrow> contacts s' = contacts s"
  "union_each i rs s = Done s' \<Longrightarrow> contacts s' = contacts s"
  "union_each i rs s = Threw e s' \<Longrightarrow> contacts s' = contacts s"
  "union_linked c s = Done s' \<Longrightarrow> contacts s' = contacts s"
  "union_linked c s = Threw e s' \<Longrightarrow> contacts s' = contacts s"
  "Parent_insert p s = Done s' \<Longrightarrow> contacts s' = contacts s"
  "Parent_insert p s = Threw e s' \<Longrightarrow> contacts s' = contacts s"
  "union_roots base rs s = (x, s') \<Longrightarrow> contacts s' = contacts s"
  using contacts_unionSets [of a b s] contacts_union_each [of i rs s]
    contacts_union_linked [of c s] contacts_Parent_insert [of p s]
    contacts_union_roots [of base rs s]
  by simp_all

lemma contacts_saved:
  "Contact_save c s = Done s' \<Longrightarrow> contacts s' = contacts s @ [c]"
  "Contact_save c s = Threw e s' \<Longrightarrow> contacts s' = contacts s"
  by (auto simp: Contact_save_def split: if_splits)

lemma contacts_add_contact:
  "\<exists>cs. contacts (snd (add_contact now body s)) = contacts s @ cs \<and> length cs \<le> 1"
  by (auto simp: add_contact_def Let_def split: sum.splits outcome.splits
      dest!: contacts_kept contacts_saved)

lemma contacts_identify:
  "\<exists>cs. contacts (snd (identify now q s)) = contacts s @ cs \<and> length cs \<le> 1"
  by (auto simp: identify_def Let_def split: sum.splits outcome.splits jsnum.splits prod.splits
      dest!: contacts_kept contacts_saved)

section \<open>The contacts are never rewritten\<close>

text \<open>
  C10 (frame). From any store, each operation leaves the Contact collection as it was or
  with one document appended: every document that existed before is there afterwards,
  at its place and with all its fields, \<open>linkPrecedence\<close> and \<open>updatedAt\<close> among them.
  \<open>unionSets\<close> and the listing append nothing.
\<close>

theorem contacts_frame:
  "(\<exists>cs. contacts (snd (add_contact now body s)) = contacts s @ cs \<and> length cs \<le> 1)
   \<and> (\<exists>cs. contacts (snd (identify now q s)) = contacts s @ cs \<and> length cs \<le> 1)
   \<and> contacts (store_of (unionSets rootA rootB s)) = contacts s
   \<and> list_contacts s = (contacts s, s)"
  using contacts_add_contact [of now body s] contacts_identify [of now q s]
  by (simp add: list_contacts_def)



lemma set_Set_add [simp]: "set (Set_add x acc) = insert x (set acc)"
  by (auto simp: Set_add_def)










section \<open>The summary of an identity\<close>





end
